theory Spec2Isabelle
  imports Main
begin

section \<open>Data model\<close>

text \<open>
  The program is a single Python file, \<^verbatim>\<open>main.py\<close>, with three functions:
  \<^verbatim>\<open>get_s3_bucket_size_bytes\<close> sums the sizes of all objects of a bucket over a paginated
  listing, \<^verbatim>\<open>send_metric\<close> publishes one gauge reading through OpenTelemetry, and
  \<^verbatim>\<open>collect_metric\<close> runs the first and hands its result to the second.

  Every exception that can leave these functions is a value of \<open>error\<close>:
  \<^item> \<open>KeyError k\<close>: a subscript \<^verbatim>\<open>d[k]\<close> on a dict without the key \<open>k\<close>;
  \<^item> \<open>OverflowError\<close>: Python's \<^verbatim>\<open>int / int\<close> when the quotient does not fit a float;
  \<^item> \<open>BotoError e\<close>: the exception \<open>e\<close> raised by the boto3 page iterator, which the
    program does not catch;
  \<^item> \<open>OtelError e\<close>: the exception \<open>e\<close> raised by a call of the OpenTelemetry library,
    which the program does not catch either.
\<close>

datatype error = KeyError string | OverflowError | BotoError string | OtelError string

text \<open>
  An object descriptor and a page of the listing are Python dicts. Only the keys the
  program and the paginator read are kept; a field that is \<open>None\<close> is a key absent from
  the dict. Sizes are Python integers, hence unbounded.
\<close>

record s3_object =
  Size :: "int option"

record page =
  Contents :: "s3_object list option"
  NextContinuationToken :: "string option"

text \<open>
  The page iterator built by \<^verbatim>\<open>paginator.paginate(Bucket = s3_bucket_name)\<close> belongs to
  boto3. The \<^verbatim>\<open>for\<close> loop sees it through its \<^verbatim>\<open>__next__\<close> method only, so it is
  modelled by the result of the \<open>k\<close>-th call of that method: a page, an exception, or the
  end of the iteration. A listing may go on forever.
\<close>

datatype next_result = Yield page | Raise string | StopIteration

type_synonym page_iterator = "nat \<Rightarrow> next_result"

text \<open>The iterator that produces the given results and is exhausted afterwards.\<close>

definition iter_of :: "next_result list \<Rightarrow> page_iterator" where
  "iter_of rs k = (if k < length rs then rs ! k else StopIteration)"

section \<open>The aggregation: \<^verbatim>\<open>get_s3_bucket_size_bytes\<close>\<close>

text \<open>
  The inner loop, \<^verbatim>\<open>for item in items: total_size += item['Size']\<close>. The subscript raises
  \<^verbatim>\<open>KeyError\<close> on a descriptor without the key.
\<close>

fun sum_items :: "s3_object list \<Rightarrow> int \<Rightarrow> error + int" where
  "sum_items [] total_size = Inr total_size"
| "sum_items (item # items) total_size =
     (case Size item of
        None \<Rightarrow> Inl (KeyError ''Size'')
      | Some n \<Rightarrow> sum_items items (total_size + n))"

text \<open>
  The outer loop, \<^verbatim>\<open>for page in page_iterator\<close>, from the \<open>k\<close>-th call of \<^verbatim>\<open>__next__\<close> on.
  The loop runs as long as the iterator yields pages, so it is a partial function: the
  value \<open>None\<close> is a run that never leaves the loop. Besides the running total the model
  carries \<open>log\<close>, the results of all calls of \<^verbatim>\<open>__next__\<close> made so far, oldest first; the
  program does not have it, it is there to state which pages were requested and in which
  order.
\<close>

partial_function (option) for_page ::
  "page_iterator \<Rightarrow> nat \<Rightarrow> int \<Rightarrow> next_result list \<Rightarrow> ((error + int) \<times> next_result list) option"
where
  "for_page page_iterator k total_size log =
     (case page_iterator k of
        StopIteration \<Rightarrow> Some (Inr total_size, log @ [StopIteration])
      | Raise e \<Rightarrow> Some (Inl (BotoError e), log @ [Raise e])
      | Yield page \<Rightarrow>
          (case Contents page of
             None \<Rightarrow> Some (Inl (KeyError ''Contents''), log @ [Yield page])
           | Some items \<Rightarrow>
               (case sum_items items total_size of
                  Inl err \<Rightarrow> Some (Inl err, log @ [Yield page])
                | Inr total_size' \<Rightarrow>
                    for_page page_iterator (Suc k) total_size' (log @ [Yield page]))))"

text \<open>
  After the loop the program computes \<^verbatim>\<open>mbSize = total_size / 1024 / 1024\<close> for the
  message it prints. The first division is Python's true division of two integers: its
  result is the quotient rounded to the nearest double, and it raises \<^verbatim>\<open>OverflowError\<close>
  when that is beyond the largest double, \<open>2 ^ 1024 - 2 ^ 971\<close>. With the divisor \<open>2 ^ 10\<close>
  and rounding to nearest (ties to even) this is the case from \<open>2 ^ 1034 - 2 ^ 980\<close> on, in
  absolute value. The second division divides a float by \<open>1024\<close> and cannot overflow. The
  call of \<^verbatim>\<open>print\<close> is taken to succeed, and the text it prints is not modelled.
\<close>

definition mbSize_limit :: int where
  "mbSize_limit = 2 ^ 1034 - 2 ^ 980"

definition mbSize_overflows :: "int \<Rightarrow> bool" where
  "mbSize_overflows total_size = (mbSize_limit \<le> \<bar>total_size\<bar>)"

text \<open>
  The function itself, from line 37 on, given the page iterator that lines 30 to 35
  obtain from boto3. It returns \<^verbatim>\<open>total_size\<close>, not \<^verbatim>\<open>mbSize\<close>.
\<close>

definition get_s3_bucket_size_bytes ::
  "page_iterator \<Rightarrow> ((error + int) \<times> next_result list) option" where
  "get_s3_bucket_size_bytes page_iterator =
     (case for_page page_iterator 0 0 [] of
        None \<Rightarrow> None
      | Some (Inl err, log) \<Rightarrow> Some (Inl err, log)
      | Some (Inr total_size, log) \<Rightarrow>
          if mbSize_overflows total_size then Some (Inl OverflowError, log)
          else Some (Inr total_size, log))"

section \<open>The listing service and the paginator\<close>






section \<open>The report: \<^verbatim>\<open>send_metric\<close>\<close>

text \<open>
  \<^verbatim>\<open>send_metric\<close> only calls the OpenTelemetry library, so its effect is the sequence of
  these calls, in the order of the source, each with the arguments that come from the
  parameters of \<^verbatim>\<open>send_metric\<close>. The attribute set is the dict that \<^verbatim>\<open>ast.literal_eval\<close>
  produced: its entries in insertion order. The value is the integer that
  \<^verbatim>\<open>collect_metric\<close> passes.

  The calls are, line by line: \<open>Exporter endpoint\<close> for \<^verbatim>\<open>OTLPMetricExporter(endpoint=...)\<close>,
  \<open>MetricReader\<close> for \<^verbatim>\<open>PeriodicExportingMetricReader(exporter)\<close>, \<open>Resource name\<close> for
  \<^verbatim>\<open>Resource(attributes={SERVICE_NAME: ...})\<close>, \<open>Provider\<close> for \<^verbatim>\<open>MeterProvider(...)\<close>,
  \<open>SetMeterProvider\<close> for \<^verbatim>\<open>metrics.set_meter_provider(provider)\<close>, \<open>GetMeter name\<close> for
  \<^verbatim>\<open>metrics.get_meter(name)\<close>, \<open>CreateGauge name description\<close> for
  \<^verbatim>\<open>meter.create_gauge(name=..., description=...)\<close>, \<open>GaugeSet amount attributes\<close> for
  \<^verbatim>\<open>s3_size_metric.set(amount=..., attributes=...)\<close> and \<open>ForceFlush\<close> for
  \<^verbatim>\<open>provider.force_flush()\<close>.
\<close>

type_synonym attributes = "(string \<times> string) list"

datatype otel_call =
    Exporter string
  | MetricReader
  | Resource string
  | Provider
  | SetMeterProvider
  | GetMeter string
  | CreateGauge string string
  | GaugeSet int attributes
  | ForceFlush

text \<open>
  Every one of these calls belongs to the library and may raise: \<^verbatim>\<open>create_gauge\<close> raises
  on a metric name that the library rejects, \<^verbatim>\<open>force_flush\<close> raises when the flush of a
  reader fails. The source catches nothing, so the first call that raises ends
  \<^verbatim>\<open>send_metric\<close> with its exception and the calls after it are not made. What a call
  returns is either an object that later calls use or, for \<^verbatim>\<open>force_flush\<close>, a boolean that
  the source discards; so all that the program sees of a call is whether it returns or
  raises. The library is therefore a parameter of the model: it says of each call how it
  ends.
\<close>

datatype call_result = Returns | Raises string

type_synonym otel_library = "otel_call \<Rightarrow> call_result"

text \<open>
  The statements of a function body, one library call each: \<open>made\<close> are the calls made so
  far, the list is what remains to be called.
\<close>

fun call_in_order ::
  "otel_library \<Rightarrow> otel_call list \<Rightarrow> otel_call list \<Rightarrow> (error + unit) \<times> otel_call list" where
  "call_in_order library made [] = (Inr (), made)"
| "call_in_order library made (c # cs) =
     (case library c of
        Raises e \<Rightarrow> (Inl (OtelError e), made @ [c])
      | Returns \<Rightarrow> call_in_order library (made @ [c]) cs)"

definition send_metric ::
  "otel_library \<Rightarrow> string \<Rightarrow> string \<Rightarrow> string \<Rightarrow> attributes \<Rightarrow> int \<Rightarrow>
   (error + unit) \<times> otel_call list" where
  "send_metric library otel_service_name otel_endpoint otel_metric_name otel_attributes amount =
     call_in_order library []
       [Exporter otel_endpoint,
        MetricReader,
        Resource otel_service_name,
        Provider,
        SetMeterProvider,
        GetMeter ''shared_meter'',
        CreateGauge otel_metric_name ''Size of S3 bucket in bytes'',
        GaugeSet amount otel_attributes,
        ForceFlush]"

section \<open>The pipeline: \<^verbatim>\<open>collect_metric\<close>\<close>

text \<open>
  The result is the outcome of the invocation, the log of the page requests and the
  OpenTelemetry calls made. An exception of the aggregation leaves \<^verbatim>\<open>collect_metric\<close>
  before \<^verbatim>\<open>send_metric\<close> is called.
\<close>

definition collect_metric ::
  "page_iterator \<Rightarrow> otel_library \<Rightarrow> string \<Rightarrow> string \<Rightarrow> string \<Rightarrow> attributes \<Rightarrow>
   ((error + unit) \<times> next_result list \<times> otel_call list) option" where
  "collect_metric page_iterator library otel_service_name otel_endpoint otel_metric_name
     otel_attributes =
     (case get_s3_bucket_size_bytes page_iterator of
        None \<Rightarrow> None
      | Some (Inl err, log) \<Rightarrow> Some (Inl err, log, [])
      | Some (Inr s3_size_bytes, log) \<Rightarrow>
          (case send_metric library otel_service_name otel_endpoint otel_metric_name
                  otel_attributes s3_size_bytes of
             (outcome, calls) \<Rightarrow> Some (outcome, log, calls)))"

section \<open>Notions the properties are stated with\<close>

text \<open>
  The sizes listed on a page, the total of a sequence of pages, and the pages among the
  results of the page requests.
\<close>

definition page_sizes :: "page \<Rightarrow> int list" where
  "page_sizes p =
     (case Contents p of None \<Rightarrow> [] | Some items \<Rightarrow> List.map_filter Size items)"

definition listing_total :: "page list \<Rightarrow> int" where
  "listing_total ps = sum_list (concat (map page_sizes ps))"


text \<open>
  A page is well formed when it has its list of object descriptors, possibly empty, and
  every descriptor has its size.
\<close>

definition well_formed :: "page \<Rightarrow> bool" where
  "well_formed p =
     (case Contents p of
        None \<Rightarrow> False
      | Some items \<Rightarrow> list_all (\<lambda>item. Size item \<noteq> None) items)"

text \<open>An error that comes from the listing capability, as opposed to a crash of the program.\<close>

fun is_listing_error :: "error \<Rightarrow> bool" where
  "is_listing_error (BotoError e) = True"
| "is_listing_error err = False"


fun is_gauge_set :: "otel_call \<Rightarrow> bool" where
  "is_gauge_set (GaugeSet amount attrs) = True"
| "is_gauge_set c = False"

text \<open>
  The calls that \<^verbatim>\<open>send_metric\<close> makes before it attaches the observation, and a library
  all of whose calls return.
\<close>

definition calls_before_gauge_set :: "string \<Rightarrow> string \<Rightarrow> string \<Rightarrow> otel_call list" where
  "calls_before_gauge_set otel_service_name otel_endpoint otel_metric_name =
     [Exporter otel_endpoint,
      MetricReader,
      Resource otel_service_name,
      Provider,
      SetMeterProvider,
      GetMeter ''shared_meter'',
      CreateGauge otel_metric_name ''Size of S3 bucket in bytes'']"

definition healthy_library :: otel_library where
  "healthy_library c = Returns"

section \<open>The loops, step by step\<close>

lemma sum_items_ok:
  "list_all (\<lambda>item. Size item \<noteq> None) items \<Longrightarrow>
   sum_items items t = Inr (t + sum_list (List.map_filter Size items))"
  by (induction items arbitrary: t) auto

lemma for_page_stop:
  "it k = StopIteration \<Longrightarrow> for_page it k t log = Some (Inr t, log @ [StopIteration])"
  by (subst for_page.simps) simp

lemma for_page_raise:
  "it k = Raise e \<Longrightarrow> for_page it k t log = Some (Inl (BotoError e), log @ [Raise e])"
  by (subst for_page.simps) simp

lemma for_page_no_contents:
  "it k = Yield p \<Longrightarrow> Contents p = None \<Longrightarrow>
   for_page it k t log = Some (Inl (KeyError ''Contents''), log @ [Yield p])"
  by (subst for_page.simps) simp

lemma for_page_item_error:
  "it k = Yield p \<Longrightarrow> Contents p = Some items \<Longrightarrow> sum_items items t = Inl err \<Longrightarrow>
   for_page it k t log = Some (Inl err, log @ [Yield p])"
  by (subst for_page.simps) simp

lemma for_page_next:
  "it k = Yield p \<Longrightarrow> Contents p = Some items \<Longrightarrow> sum_items items t = Inr t' \<Longrightarrow>
   for_page it k t log = for_page it (Suc k) t' (log @ [Yield p])"
  by (subst for_page.simps) simp

lemma for_page_well_formed:
  "it k = Yield p \<Longrightarrow> well_formed p \<Longrightarrow>
   for_page it k t log = for_page it (Suc k) (t + sum_list (page_sizes p)) (log @ [Yield p])"
  by (auto simp: well_formed_def page_sizes_def sum_items_ok for_page_next split: option.splits)

text \<open>A run of well-formed pages is consumed whole, and each adds its sizes to the total.\<close>

lemma for_page_prefix:
  "\<forall>i < length ps. it (k + i) = Yield (ps ! i) \<Longrightarrow> list_all well_formed ps \<Longrightarrow>
   for_page it k t log =
   for_page it (k + length ps) (t + listing_total ps) (log @ map Yield ps)"
proof (induction ps arbitrary: k t log)
  case Nil
  then show ?case by (simp add: listing_total_def)
next
  case (Cons p ps)
  have head: "it k = Yield p" using Cons.prems(1) by force
  have tail: "\<forall>i < length ps. it (Suc k + i) = Yield (ps ! i)"
    using Cons.prems(1) by force
  have wf: "well_formed p" "list_all well_formed ps" using Cons.prems(2) by simp_all
  show ?case
    using Cons.IH [of "Suc k", OF tail wf(2)] for_page_well_formed [of it k p, OF head wf(1)]
    by (simp add: listing_total_def add.assoc)
qed


lemma sum_items_missing_size:
  "\<not> list_all (\<lambda>item. Size item \<noteq> None) items \<Longrightarrow>
   sum_items items t = Inl (KeyError ''Size'')"
  by (induction items arbitrary: t) (auto split: option.splits)





text \<open>The loop returns only if the iterator, at some call, does not yield a well-formed page.\<close>

lemma for_page_returns:
  assumes "for_page it k t log = Some y"
  shows "\<exists>j. \<forall>p. it j = Yield p \<longrightarrow> \<not> well_formed p"
  using assms
proof (induction it k t log y rule: for_page.raw_induct [rotated 1, consumes 1, case_names step])
  case (step f it k t log y)
  show ?case
  proof (cases "\<exists>p. it k = Yield p \<and> well_formed p")
    case False
    then show ?thesis by blast
  next
    case True
    then obtain p where p: "it k = Yield p" "well_formed p" by blast
    then obtain items where items: "Contents p = Some items"
      "list_all (\<lambda>item. Size item \<noteq> None) items"
      by (auto simp: well_formed_def split: option.splits)
    from step(2) p items sum_items_ok [OF items(2), of t]
    have "f it (Suc k) (t + sum_list (List.map_filter Size items)) (log @ [Yield p]) = Some y"
      by simp
    from step(1) [OF this] show ?thesis .
  qed
qed

lemma for_page_diverges:
  assumes "\<forall>k. \<exists>p. it k = Yield p \<and> well_formed p"
  shows "for_page it k t log = None"
proof (cases "for_page it k t log")
  case None
  then show ?thesis .
next
  case (Some y)
  from for_page_returns [OF Some] assms show ?thesis by force
qed


section \<open>The aggregation on finite listings\<close>

lemma iter_of_end: "iter_of rs (length rs) = StopIteration"
  by (simp add: iter_of_def)

lemma iter_of_after: "iter_of (map Yield ps @ r # rest) (length ps) = r"
  by (simp add: iter_of_def nth_append)

lemma for_page_finite:
  assumes "list_all well_formed ps"
  shows "for_page (iter_of (map Yield ps @ rest)) 0 0 [] =
         for_page (iter_of (map Yield ps @ rest)) (length ps) (listing_total ps) (map Yield ps)"
proof -
  have "\<forall>i < length ps. iter_of (map Yield ps @ rest) (0 + i) = Yield (ps ! i)"
    by (simp add: iter_of_def nth_append)
  from for_page_prefix [OF this assms, of 0 "[]"] show ?thesis by simp
qed

lemma aggregate_finite:
  assumes "list_all well_formed ps"
  shows "get_s3_bucket_size_bytes (iter_of (map Yield ps)) =
         Some (if mbSize_overflows (listing_total ps) then Inl OverflowError
               else Inr (listing_total ps), map Yield ps @ [StopIteration])"
proof -
  have "for_page (iter_of (map Yield ps)) 0 0 [] =
        Some (Inr (listing_total ps), map Yield ps @ [StopIteration])"
    using for_page_finite [OF assms, of "[]"] iter_of_end [of "map Yield ps"]
    by (simp add: for_page_stop)
  then show ?thesis by (simp add: get_s3_bucket_size_bytes_def)
qed

lemma aggregate_raise:
  assumes "list_all well_formed ps"
  shows "get_s3_bucket_size_bytes (iter_of (map Yield ps @ Raise e # rest)) =
         Some (Inl (BotoError e), map Yield ps @ [Raise e])"
proof -
  have "for_page (iter_of (map Yield ps @ Raise e # rest)) 0 0 [] =
        Some (Inl (BotoError e), map Yield ps @ [Raise e])"
    using for_page_finite [OF assms, of "Raise e # rest"] iter_of_after [of ps "Raise e" rest]
    by (simp add: for_page_raise)
  then show ?thesis by (simp add: get_s3_bucket_size_bytes_def)
qed

lemma aggregate_missing_size:
  assumes "list_all well_formed ps" and "Contents p = Some items"
    and "\<not> list_all (\<lambda>item. Size item \<noteq> None) items"
  shows "get_s3_bucket_size_bytes (iter_of (map Yield ps @ Yield p # rest)) =
         Some (Inl (KeyError ''Size''), map Yield ps @ [Yield p])"
proof -
  have "for_page (iter_of (map Yield ps @ Yield p # rest)) 0 0 [] =
        Some (Inl (KeyError ''Size''), map Yield ps @ [Yield p])"
    using for_page_finite [OF assms(1), of "Yield p # rest"] iter_of_after [of ps "Yield p" rest]
      sum_items_missing_size [OF assms(3)] assms(2)
    by (simp add: for_page_item_error)
  then show ?thesis by (simp add: get_s3_bucket_size_bytes_def)
qed

lemma aggregate_missing_contents:
  assumes "list_all well_formed ps" and "Contents p = None"
  shows "get_s3_bucket_size_bytes (iter_of (map Yield ps @ Yield p # rest)) =
         Some (Inl (KeyError ''Contents''), map Yield ps @ [Yield p])"
proof -
  have "for_page (iter_of (map Yield ps @ Yield p # rest)) 0 0 [] =
        Some (Inl (KeyError ''Contents''), map Yield ps @ [Yield p])"
    using for_page_finite [OF assms(1), of "Yield p # rest"] iter_of_after [of ps "Yield p" rest]
      assms(2)
    by (simp add: for_page_no_contents)
  then show ?thesis by (simp add: get_s3_bucket_size_bytes_def)
qed


lemma aggregate_diverges:
  assumes "\<forall>k. \<exists>p. it k = Yield p \<and> well_formed p"
  shows "get_s3_bucket_size_bytes it = None"
  by (simp add: get_s3_bucket_size_bytes_def for_page_diverges [OF assms])


section \<open>Properties of the aggregation\<close>

text \<open>
  Claim C1. The claim wants the exact sum for every listing, the empty bucket and pages
  without objects among other pages included. The listing service delivers a page
  without objects as a response that has no \<^verbatim>\<open>Contents\<close> key. On the scenario of the
  spec, pages with the sizes \<open>[1048576, 2097152]\<close>, \<open>[]\<close> and \<open>[5242880]\<close>, with the middle
  page delivered that way, the subscript \<^verbatim>\<open>page['Contents']\<close> raises \<^verbatim>\<open>KeyError\<close> on the
  second page: the call fails after two page requests instead of returning \<open>8388608\<close>.
\<close>

theorem zero_object_page_among_others_raises:
  "get_s3_bucket_size_bytes (iter_of
      [Yield \<lparr>Contents = Some [\<lparr>Size = Some 1048576\<rparr>, \<lparr>Size = Some 2097152\<rparr>],
               NextContinuationToken = Some ''t1''\<rparr>,
       Yield \<lparr>Contents = None, NextContinuationToken = Some ''t2''\<rparr>,
       Yield \<lparr>Contents = Some [\<lparr>Size = Some 5242880\<rparr>], NextContinuationToken = None\<rparr>]) =
   Some (Inl (KeyError ''Contents''),
      [Yield \<lparr>Contents = Some [\<lparr>Size = Some 1048576\<rparr>, \<lparr>Size = Some 2097152\<rparr>],
               NextContinuationToken = Some ''t1''\<rparr>,
       Yield \<lparr>Contents = None, NextContinuationToken = Some ''t2''\<rparr>])"
  using aggregate_missing_contents
    [of "[\<lparr>Contents = Some [\<lparr>Size = Some 1048576\<rparr>, \<lparr>Size = Some 2097152\<rparr>],
            NextContinuationToken = Some ''t1''\<rparr>]"
      "\<lparr>Contents = None, NextContinuationToken = Some ''t2''\<rparr>"
      "[Yield \<lparr>Contents = Some [\<lparr>Size = Some 5242880\<rparr>], NextContinuationToken = None\<rparr>]"]
  by (simp add: well_formed_def)

text \<open>
  Claim C2. The claim wants a page without objects to add nothing, also when the page has
  no \<^verbatim>\<open>Contents\<close> key at all, which is what the listing service returns for an empty
  bucket. On such a page the subscript \<^verbatim>\<open>page['Contents']\<close> raises \<^verbatim>\<open>KeyError\<close>, and the
  call fails instead of returning \<open>0\<close>.
\<close>

theorem page_without_contents_raises:
  "get_s3_bucket_size_bytes
     (iter_of [Yield \<lparr>Contents = None, NextContinuationToken = None\<rparr>]) =
   Some (Inl (KeyError ''Contents''), [Yield \<lparr>Contents = None, NextContinuationToken = None\<rparr>])"
  using aggregate_missing_contents
    [of "[]" "\<lparr>Contents = None, NextContinuationToken = None\<rparr>" "[]"]
  by simp

text \<open>
  Claim C3, as amended. After any number of well-formed pages, a page request that raises
  \<open>e\<close> (the service cannot be reached, the credentials are rejected) makes
  \<^verbatim>\<open>get_s3_bucket_size_bytes\<close> fail with that same exception of the listing library; a
  page on which an object descriptor has no \<^verbatim>\<open>Size\<close> makes it fail with
  \<^verbatim>\<open>KeyError('Size')\<close>, the exception of the unchecked subscript. The program declares no
  error type of its own.
\<close>

theorem listing_failure_kinds:
  assumes "list_all well_formed ps"
  shows "map_option fst (get_s3_bucket_size_bytes (iter_of (map Yield ps @ Raise e # rest))) =
           Some (Inl (BotoError e))
       \<and> is_listing_error (BotoError e)
       \<and> (Contents p = Some items \<and> \<not> list_all (\<lambda>item. Size item \<noteq> None) items \<longrightarrow>
            map_option fst
              (get_s3_bucket_size_bytes (iter_of (map Yield ps @ Yield p # rest))) =
              Some (Inl (KeyError ''Size'')))"
  using aggregate_raise [OF assms] aggregate_missing_size [OF assms] by simp

theorem listing_failure_kinds_witness:
  "map_option fst (get_s3_bucket_size_bytes (iter_of
      [Yield \<lparr>Contents = Some [\<lparr>Size = Some 3\<rparr>], NextContinuationToken = Some ''t''\<rparr>,
       Raise ''InvalidAccessKeyId''])) = Some (Inl (BotoError ''InvalidAccessKeyId''))
   \<and> map_option fst (get_s3_bucket_size_bytes (iter_of
      [Yield \<lparr>Contents = Some [\<lparr>Size = Some 3\<rparr>], NextContinuationToken = Some ''t''\<rparr>,
       Yield \<lparr>Contents = Some [\<lparr>Size = Some 4\<rparr>, \<lparr>Size = None\<rparr>],
               NextContinuationToken = None\<rparr>])) =
      Some (Inl (KeyError ''Size''))"
  using listing_failure_kinds [of
      "[\<lparr>Contents = Some [\<lparr>Size = Some 3\<rparr>], NextContinuationToken = Some ''t''\<rparr>]"
      "''InvalidAccessKeyId''" "[]"
      "\<lparr>Contents = Some [\<lparr>Size = Some 4\<rparr>, \<lparr>Size = None\<rparr>], NextContinuationToken = None\<rparr>"
      "[\<lparr>Size = Some 4\<rparr>, \<lparr>Size = None\<rparr>]"]
  by (simp add: well_formed_def)

text \<open>
  Claim C3 as stated fails on a malformed page: a descriptor without \<^verbatim>\<open>Size\<close> ends the
  call with \<^verbatim>\<open>KeyError\<close>, which is not an error of the listing capability.
\<close>

theorem malformed_page_counterexample:
  "get_s3_bucket_size_bytes (iter_of
     [Yield \<lparr>Contents = Some [\<lparr>Size = None\<rparr>], NextContinuationToken = None\<rparr>]) =
   Some (Inl (KeyError ''Size''),
     [Yield \<lparr>Contents = Some [\<lparr>Size = None\<rparr>], NextContinuationToken = None\<rparr>])
   \<and> \<not> is_listing_error (KeyError ''Size'')"
  using aggregate_missing_size
    [of "[]" "\<lparr>Contents = Some [\<lparr>Size = None\<rparr>], NextContinuationToken = None\<rparr>"
      "[\<lparr>Size = None\<rparr>]" "[]"]
  by simp

text \<open>
  Claim C4. The running total is a Python integer, which has no largest value: the sum is
  never wrapped or truncated. The call still has a largest total it returns: from
  \<open>2 ^ 1034 - 2 ^ 980\<close> on, far beyond \<open>2 ^ 63\<close>, it raises \<^verbatim>\<open>OverflowError\<close>, and below
  that bound it returns the exact sum. So on every listing of well-formed pages the
  outcome is either the exact sum or \<^verbatim>\<open>OverflowError\<close>, never another number.
\<close>

theorem overflow_is_raised:
  assumes "list_all well_formed ps"
  shows "2 ^ 63 < mbSize_limit
       \<and> get_s3_bucket_size_bytes (iter_of (map Yield ps)) =
           Some (if mbSize_limit \<le> \<bar>listing_total ps\<bar> then Inl OverflowError
                 else Inr (listing_total ps), map Yield ps @ [StopIteration])"
proof -
  have "(2::int) ^ 63 < mbSize_limit" by (simp add: mbSize_limit_def)
  with aggregate_finite [OF assms] show ?thesis by (simp add: mbSize_overflows_def)
qed

text \<open>
  Two objects of \<open>2 ^ 1033\<close> bytes each, on two pages, add up to \<open>2 ^ 1034\<close>: the call
  raises. One object of \<open>2 ^ 63\<close> bytes next to one of \<open>2 ^ 64\<close> bytes: the call returns
  \<open>2 ^ 63 + 2 ^ 64\<close>, a total that no 64-bit integer holds.
\<close>

theorem overflow_is_raised_witness:
  "get_s3_bucket_size_bytes (iter_of (map Yield
      [\<lparr>Contents = Some [\<lparr>Size = Some (2 ^ 1033)\<rparr>], NextContinuationToken = Some ''t''\<rparr>,
       \<lparr>Contents = Some [\<lparr>Size = Some (2 ^ 1033)\<rparr>], NextContinuationToken = None\<rparr>])) =
   Some (Inl OverflowError, map Yield
      [\<lparr>Contents = Some [\<lparr>Size = Some (2 ^ 1033)\<rparr>], NextContinuationToken = Some ''t''\<rparr>,
       \<lparr>Contents = Some [\<lparr>Size = Some (2 ^ 1033)\<rparr>], NextContinuationToken = None\<rparr>]
      @ [StopIteration])
   \<and> get_s3_bucket_size_bytes (iter_of (map Yield
      [\<lparr>Contents = Some [\<lparr>Size = Some (2 ^ 63)\<rparr>, \<lparr>Size = Some (2 ^ 64)\<rparr>],
        NextContinuationToken = None\<rparr>])) =
   Some (Inr 27670116110564327424, map Yield
      [\<lparr>Contents = Some [\<lparr>Size = Some (2 ^ 63)\<rparr>, \<lparr>Size = Some (2 ^ 64)\<rparr>],
        NextContinuationToken = None\<rparr>]
      @ [StopIteration])"
  using overflow_is_raised [of
      "[\<lparr>Contents = Some [\<lparr>Size = Some (2 ^ 1033)\<rparr>], NextContinuationToken = Some ''t''\<rparr>,
        \<lparr>Contents = Some [\<lparr>Size = Some (2 ^ 1033)\<rparr>], NextContinuationToken = None\<rparr>]"]
    overflow_is_raised [of
      "[\<lparr>Contents = Some [\<lparr>Size = Some (2 ^ 63)\<rparr>, \<lparr>Size = Some (2 ^ 64)\<rparr>],
         NextContinuationToken = None\<rparr>]"]
  by (simp add: well_formed_def listing_total_def page_sizes_def mbSize_limit_def)

section \<open>Pagination\<close>






text \<open>
  Claim C6. When a page request raises \<open>e\<close> after any number of well-formed pages, the
  call fails with \<open>e\<close> at once: its outcome is the error and holds no sum, although the
  pages before were added up, and the failed request is the last one made. It is not
  repeated, and what the iterator would have produced afterwards (\<open>rest\<close>) is never
  asked for.
\<close>

theorem fail_fast_on_listing_error:
  assumes "list_all well_formed ps"
  shows "get_s3_bucket_size_bytes (iter_of (map Yield ps @ Raise e # rest)) =
         Some (Inl (BotoError e), map Yield ps @ [Raise e])"
  using aggregate_raise [OF assms] .

theorem fail_fast_on_listing_error_witness:
  "get_s3_bucket_size_bytes (iter_of
      [Yield \<lparr>Contents = Some [\<lparr>Size = Some 1048576\<rparr>], NextContinuationToken = Some ''t1''\<rparr>,
       Raise ''AccessDenied'',
       Yield \<lparr>Contents = Some [\<lparr>Size = Some 5242880\<rparr>], NextContinuationToken = None\<rparr>]) =
   Some (Inl (BotoError ''AccessDenied''),
      [Yield \<lparr>Contents = Some [\<lparr>Size = Some 1048576\<rparr>], NextContinuationToken = Some ''t1''\<rparr>,
       Raise ''AccessDenied''])"
  using fail_fast_on_listing_error [of
      "[\<lparr>Contents = Some [\<lparr>Size = Some 1048576\<rparr>], NextContinuationToken = Some ''t1''\<rparr>]"
      "''AccessDenied''"
      "[Yield \<lparr>Contents = Some [\<lparr>Size = Some 5242880\<rparr>], NextContinuationToken = None\<rparr>]"]
  by (simp add: well_formed_def)

section \<open>The report, call by call\<close>








text \<open>
  The observations attached: one, with the value and the attributes given, when all calls
  before \<^verbatim>\<open>s3_size_metric.set\<close> return, and none otherwise.
\<close>

lemma gauge_set_calls:
  "filter is_gauge_set (snd (send_metric library service_name endpoint metric_name attrs amount)) =
     (if \<forall>c \<in> set (calls_before_gauge_set service_name endpoint metric_name). library c = Returns
      then [GaugeSet amount attrs] else [])"
  by (auto simp: send_metric_def calls_before_gauge_set_def split: call_result.splits)



section \<open>Properties of the pipeline and of the report\<close>

text \<open>
  Claim C7. When the aggregation fails, \<^verbatim>\<open>collect_metric\<close> fails with the same error and
  makes no OpenTelemetry call at all, so \<^verbatim>\<open>send_metric\<close> is not invoked and no observation
  exists. When the aggregation never returns, neither does \<^verbatim>\<open>collect_metric\<close>.
\<close>

theorem no_export_on_aggregation_failure:
  "(get_s3_bucket_size_bytes it = Some (Inl err, log) \<longrightarrow>
      collect_metric it library service_name endpoint metric_name attrs = Some (Inl err, log, []))
   \<and> (get_s3_bucket_size_bytes it = None \<longrightarrow>
      collect_metric it library service_name endpoint metric_name attrs = None)"
  by (simp add: collect_metric_def)

text \<open>
  The failure scenario of the spec, an authentication error on the second page request;
  and a listing that never ends.
\<close>

theorem no_export_on_aggregation_failure_witness:
  "collect_metric
      (iter_of [Yield \<lparr>Contents = Some [\<lparr>Size = Some 1048576\<rparr>],
                       NextContinuationToken = Some ''t1''\<rparr>,
                Raise ''InvalidAccessKeyId''])
      healthy_library ''s3_monitoring'' ''http://localhost:4317'' ''s3_size''
      [(''namespace'', ''monitoring''), (''role'', ''metrics'')] =
    Some (Inl (BotoError ''InvalidAccessKeyId''),
      [Yield \<lparr>Contents = Some [\<lparr>Size = Some 1048576\<rparr>], NextContinuationToken = Some ''t1''\<rparr>,
       Raise ''InvalidAccessKeyId''], [])
   \<and> collect_metric
      (\<lambda>k. Yield \<lparr>Contents = Some [], NextContinuationToken = Some ''again''\<rparr>)
      healthy_library ''s3_monitoring'' ''http://localhost:4317'' ''s3_size''
      [(''namespace'', ''monitoring''), (''role'', ''metrics'')] = None"
proof -
  let ?p = "\<lparr>Contents = Some [\<lparr>Size = Some 1048576\<rparr>], NextContinuationToken = Some ''t1''\<rparr>"
  let ?q = "\<lparr>Contents = Some [], NextContinuationToken = Some ''again''\<rparr>"
  have failed: "get_s3_bucket_size_bytes (iter_of [Yield ?p, Raise ''InvalidAccessKeyId'']) =
      Some (Inl (BotoError ''InvalidAccessKeyId''), [Yield ?p, Raise ''InvalidAccessKeyId''])"
    using aggregate_raise [of "[?p]" "''InvalidAccessKeyId''" "[]"]
    by (simp add: well_formed_def)
  have endless: "get_s3_bucket_size_bytes (\<lambda>k. Yield ?q) = None"
    by (rule aggregate_diverges) (simp add: well_formed_def)
  from failed endless
    no_export_on_aggregation_failure [of "iter_of [Yield ?p, Raise ''InvalidAccessKeyId'']"
      "BotoError ''InvalidAccessKeyId''" "[Yield ?p, Raise ''InvalidAccessKeyId'']"]
    no_export_on_aggregation_failure [of "\<lambda>k. Yield ?q"]
  show ?thesis by simp
qed




text \<open>
  Claim C9. The observations that \<^verbatim>\<open>send_metric\<close> attaches are these: when the calls before
  \<^verbatim>\<open>s3_size_metric.set\<close> return, exactly one, and it carries the attribute set that
  \<^verbatim>\<open>send_metric\<close> was given, entry for entry and in the same order, whatever the entries
  are; otherwise none. Nothing is normalised, checked, added or removed on the way to
  the gauge.
\<close>

theorem attributes_passed_verbatim:
  "filter is_gauge_set
      (snd (send_metric library service_name endpoint metric_name attrs amount)) =
     (if \<forall>c \<in> set (calls_before_gauge_set service_name endpoint metric_name). library c = Returns
      then [GaugeSet amount attrs] else [])"
  by (rule gauge_set_calls)

text \<open>Attributes with an upper-case key, a trailing blank, an empty value and a leading blank.\<close>

theorem attributes_passed_verbatim_witness:
  "filter is_gauge_set
      (snd (send_metric healthy_library ''s3_monitoring'' ''http://localhost:4317'' ''s3_size''
        [(''namespace'', ''monitoring''), (''Role '', ''''), (''role'', '' Metrics'')] 8388608)) =
     [GaugeSet 8388608 [(''namespace'', ''monitoring''), (''Role '', ''''), (''role'', '' Metrics'')]]"
  using attributes_passed_verbatim [of healthy_library "''s3_monitoring''"
      "''http://localhost:4317''" "''s3_size''"
      "[(''namespace'', ''monitoring''), (''Role '', ''''), (''role'', '' Metrics'')]" 8388608]
  by (simp add: healthy_library_def)




end
